theory Spec2Isabelle
  imports Main "HOL-Library.Word"
begin

section \<open>Solidity value types\<close>

text \<open>
  The contract \<open>MultisigPolicyFhe\<close> (contracts/Multisig_Policy_Fhe.sol) works on
  \<open>uint256\<close> timestamps and identifiers, on addresses, and on byte strings.  Solidity 0.8
  checks \<open>+\<close> and \<open>++\<close> on \<open>uint256\<close>: an overflow reverts the call with
  \<open>Panic(0x11)\<close>.
\<close>

type_synonym uint256 = "256 word"
type_synonym uint32 = "32 word"
type_synonym address = "160 word"
type_synonym bytes = "8 word list"

definition checked_add :: "uint256 \<Rightarrow> uint256 \<Rightarrow> uint256 option" where
  "checked_add a b = (if unat a + unat b < 2 ^ 256 then Some (a + b) else None)"

text \<open>
  \<open>abi.decode(cleartexts, (bool))\<close>: the data must hold one 32-byte word, and that word
  must be 0 or 1; otherwise the decoder reverts.
\<close>

definition abi_decode_bool :: "bytes \<Rightarrow> bool option" where
  "abi_decode_bool cleartexts =
     (if length cleartexts < 32 then None
      else if take 32 cleartexts = replicate 32 0 then Some False
      else if take 32 cleartexts = replicate 31 0 @ [1] then Some True
      else None)"

section \<open>The encrypted value abstraction\<close>

text \<open>
  Modelled from the spec: the encrypted value abstraction.  The FHE library
  (\<open>@fhevm/solidity\<close>) is an external collaborator (spec, sections 2 and 6) and not part
  of the contract's sources: the contract only composes its operators on opaque
  ciphertext handles.  A handle is modelled by the term that produced it: the zero handle
  of a storage slot never written, the trivial encryption of a constant
  (\<open>FHE.asEuint32\<close>), a ciphertext supplied by a caller, or the result of \<open>add\<close>.  Two
  handles are the same exactly when they were produced the same way: a new operation
  yields a new handle, and equal handles have equal plaintexts.
\<close>

datatype euint32 =
    Uninitialized
  | FHE_asEuint32 uint32
  | Ciphertext nat
  | FHE_add euint32 euint32

datatype ebool =
    FHE_le euint32 euint32
  | FHE_gt euint32 euint32
  | FHE_ge euint32 euint32
  | FHE_and ebool ebool
  | FHE_or ebool ebool

text \<open>
  Modelled from the spec: what a handle decrypts to, given the plaintexts \<open>pt\<close> of the
  ciphertexts that callers supplied.  The operators are homomorphic (spec, glossary);
  \<open>add\<close> wraps at 32 bits; the zero handle stands for 0.
\<close>

primrec decrypt32 :: "(nat \<Rightarrow> uint32) \<Rightarrow> euint32 \<Rightarrow> uint32" where
  "decrypt32 pt Uninitialized = 0"
| "decrypt32 pt (FHE_asEuint32 v) = v"
| "decrypt32 pt (Ciphertext k) = pt k"
| "decrypt32 pt (FHE_add a b) = decrypt32 pt a + decrypt32 pt b"

primrec decryptBool :: "(nat \<Rightarrow> uint32) \<Rightarrow> ebool \<Rightarrow> bool" where
  "decryptBool pt (FHE_le a b) = (decrypt32 pt a \<le> decrypt32 pt b)"
| "decryptBool pt (FHE_gt a b) = (decrypt32 pt a > decrypt32 pt b)"
| "decryptBool pt (FHE_ge a b) = (decrypt32 pt a \<ge> decrypt32 pt b)"
| "decryptBool pt (FHE_and p q) = (decryptBool pt p \<and> decryptBool pt q)"
| "decryptBool pt (FHE_or p q) = (decryptBool pt p \<or> decryptBool pt q)"

text \<open>
  \<open>bytes32\<close> values the contract handles: the zero word (the default of a storage slot),
  the serialised form of a boolean handle (\<open>FHE.toBytes32\<close>), and the digest
  \<open>keccak256(abi.encode(cts, address(this)))\<close>, taken as collision free and never zero.
\<close>

datatype bytes32 =
    Zero_bytes32
  | Handle_bytes32 ebool
  | Keccak256_encode "bytes32 list" address

definition FHE_toBytes32 :: "ebool \<Rightarrow> bytes32" where
  "FHE_toBytes32 b = Handle_bytes32 b"

section \<open>Storage, events and errors\<close>

record DecryptionContext =
  batchId :: uint256
  stateHash :: bytes32
  processed :: bool

record Batch =
  id_Batch :: uint256
  isOpen :: bool
  totalAmountEncrypted :: euint32
  numApprovalsEncrypted :: euint32
  threshold2Encrypted :: euint32
  threshold4Encrypted :: euint32
  limitEncrypted :: euint32

datatype error =
    NotOwner
  | NotProvider
  | Paused
  | CooldownActive
  | BatchClosed
  | BatchOpen
  | InvalidThreshold
  | InvalidLimit
  | ReplayAttempt
  | StateMismatch
  | DecryptionFailed
  | Error_string string
  | Panic_overflow
  | Decode_revert

datatype event =
    OwnershipTransferred address address
  | ProviderAdded address
  | ProviderRemoved address
  | PausedContract address
  | UnpausedContract address
  | CooldownSecondsSet uint256 uint256
  | BatchOpened uint256
  | BatchClosed_event uint256
  | PolicyParametersSubmitted uint256 address
  | TransactionSubmitted uint256 address
  | DecryptionRequested uint256 uint256
  | DecryptionCompleted uint256 uint256 bool

text \<open>
  The storage of the contract, the log of the events it has emitted, and its own address
  (\<open>address(this)\<close>, fixed at deployment).
\<close>

record contract =
  owner :: address
  isProvider :: "address \<Rightarrow> bool"
  lastSubmissionTime :: "address \<Rightarrow> uint256"
  lastDecryptionRequestTime :: "address \<Rightarrow> uint256"
  cooldownSeconds :: uint256
  paused :: bool
  decryptionContexts :: "uint256 \<Rightarrow> DecryptionContext"
  batches :: "uint256 \<Rightarrow> Batch"
  currentBatchId :: uint256
  events :: "event list"
  this_address :: address

text \<open>
  What a call sees of its transaction: the sender and the block timestamp.  Modelled from
  the spec: the external decryption oracle (spec, section 6), as the two answers it gives
  within the transaction: \<open>requestDecryption\<close> returns the identifier it assigns to the
  request, \<open>checkSignatures\<close> says whether it accepts a proof.
\<close>

record env =
  msg_sender :: address
  block_timestamp :: uint256
  FHE_requestDecryption :: "bytes32 list \<Rightarrow> uint256"
  FHE_checkSignatures :: "uint256 \<Rightarrow> bytes \<Rightarrow> bytes \<Rightarrow> bool"

definition emit :: "event \<Rightarrow> contract \<Rightarrow> contract" where
  "emit ev s = s\<lparr>events := events s @ [ev]\<rparr>"

section \<open>Modifiers\<close>

text \<open>
  A modifier wraps the rest of the call (\<open>_\<close>).  A revert is \<open>Inl\<close> of the error and
  discards every effect of the call.
\<close>

definition onlyOwner :: "env \<Rightarrow> (contract \<Rightarrow> error + contract) \<Rightarrow> contract \<Rightarrow> error + contract" where
  "onlyOwner e body s = (if msg_sender e \<noteq> owner s then Inl NotOwner else body s)"

definition onlyProvider :: "env \<Rightarrow> (contract \<Rightarrow> error + contract) \<Rightarrow> contract \<Rightarrow> error + contract" where
  "onlyProvider e body s =
     (if \<not> isProvider s (msg_sender e) then Inl NotProvider
      else case body s of
             Inl err \<Rightarrow> Inl err
           | Inr s' \<Rightarrow>
               Inr (s'\<lparr>lastSubmissionTime :=
                          (lastSubmissionTime s')(msg_sender e := block_timestamp e)\<rparr>))"

definition whenNotPaused :: "(contract \<Rightarrow> error + contract) \<Rightarrow> contract \<Rightarrow> error + contract" where
  "whenNotPaused body s = (if paused s then Inl Paused else body s)"

definition respectCooldown :: "env \<Rightarrow> (contract \<Rightarrow> error + contract) \<Rightarrow> contract \<Rightarrow> error + contract" where
  "respectCooldown e body s =
     (case checked_add (lastSubmissionTime s (msg_sender e)) (cooldownSeconds s) of
        None \<Rightarrow> Inl Panic_overflow
      | Some t1 \<Rightarrow>
          if block_timestamp e < t1 then Inl CooldownActive
          else (case checked_add (lastDecryptionRequestTime s (msg_sender e))
                       (cooldownSeconds s) of
                  None \<Rightarrow> Inl Panic_overflow
                | Some t2 \<Rightarrow>
                    if block_timestamp e < t2 then Inl CooldownActive
                    else body s))"

section \<open>Deployment and administration\<close>

definition empty_context :: DecryptionContext where
  "empty_context = \<lparr>batchId = 0, stateHash = Zero_bytes32, processed = False\<rparr>"

definition empty_batch :: Batch where
  "empty_batch =
     \<lparr>id_Batch = 0, isOpen = False,
      totalAmountEncrypted = Uninitialized, numApprovalsEncrypted = Uninitialized,
      threshold2Encrypted = Uninitialized, threshold4Encrypted = Uninitialized,
      limitEncrypted = Uninitialized\<rparr>"

definition constructor :: "address \<Rightarrow> env \<Rightarrow> contract" where
  "constructor self e =
     emit (ProviderAdded (msg_sender e))
       \<lparr>owner = msg_sender e,
        isProvider = (\<lambda>_. False)(msg_sender e := True),
        lastSubmissionTime = (\<lambda>_. 0),
        lastDecryptionRequestTime = (\<lambda>_. 0),
        cooldownSeconds = 60,
        paused = False,
        decryptionContexts = (\<lambda>_. empty_context),
        batches = (\<lambda>_. empty_batch),
        currentBatchId = 1,
        events = [],
        this_address = self\<rparr>"

definition transferOwnership :: "env \<Rightarrow> address \<Rightarrow> contract \<Rightarrow> error + contract" where
  "transferOwnership e newOwner =
     onlyOwner e (\<lambda>s.
       let previousOwner = owner s in
       Inr (emit (OwnershipTransferred previousOwner newOwner) (s\<lparr>owner := newOwner\<rparr>)))"

definition addProvider :: "env \<Rightarrow> address \<Rightarrow> contract \<Rightarrow> error + contract" where
  "addProvider e provider =
     onlyOwner e (\<lambda>s.
       if \<not> isProvider s provider
       then Inr (emit (ProviderAdded provider)
                   (s\<lparr>isProvider := (isProvider s)(provider := True)\<rparr>))
       else Inr s)"

definition removeProvider :: "env \<Rightarrow> address \<Rightarrow> contract \<Rightarrow> error + contract" where
  "removeProvider e provider =
     onlyOwner e (\<lambda>s.
       if isProvider s provider
       then Inr (emit (ProviderRemoved provider)
                   (s\<lparr>isProvider := (isProvider s)(provider := False)\<rparr>))
       else Inr s)"

definition pause :: "env \<Rightarrow> contract \<Rightarrow> error + contract" where
  "pause e =
     onlyOwner e (whenNotPaused (\<lambda>s.
       Inr (emit (PausedContract (msg_sender e)) (s\<lparr>paused := True\<rparr>))))"

definition unpause :: "env \<Rightarrow> contract \<Rightarrow> error + contract" where
  "unpause e =
     onlyOwner e (\<lambda>s.
       if \<not> paused s then Inl Paused
       else Inr (emit (UnpausedContract (msg_sender e)) (s\<lparr>paused := False\<rparr>)))"

definition setCooldownSeconds :: "env \<Rightarrow> uint256 \<Rightarrow> contract \<Rightarrow> error + contract" where
  "setCooldownSeconds e newCooldown =
     onlyOwner e (\<lambda>s.
       if \<not> newCooldown > 0 then Inl (Error_string ''Cooldown must be positive'')
       else let oldCooldown = cooldownSeconds s in
            Inr (emit (CooldownSecondsSet oldCooldown newCooldown)
                   (s\<lparr>cooldownSeconds := newCooldown\<rparr>)))"

section \<open>Batches\<close>

definition update_batch :: "uint256 \<Rightarrow> (Batch \<Rightarrow> Batch) \<Rightarrow> contract \<Rightarrow> contract" where
  "update_batch i f s = s\<lparr>batches := (batches s)(i := f (batches s i))\<rparr>"

definition openBatch :: "env \<Rightarrow> contract \<Rightarrow> error + contract" where
  "openBatch e =
     onlyOwner e (whenNotPaused (\<lambda>s.
       if isOpen (batches s (currentBatchId s)) then Inl BatchOpen
       else Inr (emit (BatchOpened (currentBatchId s))
                   (update_batch (currentBatchId s)
                      (\<lambda>b. b\<lparr>isOpen := True,
                              totalAmountEncrypted := FHE_asEuint32 0,
                              numApprovalsEncrypted := FHE_asEuint32 0,
                              threshold2Encrypted := FHE_asEuint32 2,
                              threshold4Encrypted := FHE_asEuint32 4,
                              limitEncrypted := FHE_asEuint32 10000\<rparr>) s))))"

definition closeBatch :: "env \<Rightarrow> contract \<Rightarrow> error + contract" where
  "closeBatch e =
     onlyOwner e (whenNotPaused (\<lambda>s.
       if \<not> isOpen (batches s (currentBatchId s)) then Inl BatchClosed
       else let s1 = emit (BatchClosed_event (currentBatchId s))
                       (update_batch (currentBatchId s) (\<lambda>b. b\<lparr>isOpen := False\<rparr>) s)
            in case checked_add (currentBatchId s1) 1 of
                 None \<Rightarrow> Inl Panic_overflow
               | Some n \<Rightarrow> Inr (s1\<lparr>currentBatchId := n\<rparr>)))"

definition setPolicyParameters ::
  "env \<Rightarrow> euint32 \<Rightarrow> euint32 \<Rightarrow> euint32 \<Rightarrow> contract \<Rightarrow> error + contract" where
  "setPolicyParameters e threshold2 threshold4 limit =
     onlyProvider e (whenNotPaused (respectCooldown e (\<lambda>s.
       if \<not> isOpen (batches s (currentBatchId s)) then Inl BatchClosed
       else Inr (emit (PolicyParametersSubmitted (currentBatchId s) (msg_sender e))
                   (update_batch (currentBatchId s)
                      (\<lambda>b. b\<lparr>threshold2Encrypted := threshold2,
                              threshold4Encrypted := threshold4,
                              limitEncrypted := limit\<rparr>) s)))))"

definition submitTransaction :: "env \<Rightarrow> euint32 \<Rightarrow> euint32 \<Rightarrow> contract \<Rightarrow> error + contract" where
  "submitTransaction e amount numApprovals =
     onlyProvider e (whenNotPaused (respectCooldown e (\<lambda>s.
       if \<not> isOpen (batches s (currentBatchId s)) then Inl BatchClosed
       else Inr (emit (TransactionSubmitted (currentBatchId s) (msg_sender e))
                   (update_batch (currentBatchId s)
                      (\<lambda>b. b\<lparr>totalAmountEncrypted := FHE_add (totalAmountEncrypted b) amount,
                              numApprovalsEncrypted :=
                                FHE_add (numApprovalsEncrypted b) numApprovals\<rparr>) s)))))"

section \<open>The predicate evaluator and the decryption protocol\<close>

text \<open>
  \<open>_hashCiphertexts\<close>: the digest of the ciphertext list and the contract's own address.
\<close>

definition hashCiphertexts :: "address \<Rightarrow> bytes32 list \<Rightarrow> bytes32" where
  "hashCiphertexts self cts = Keccak256_encode cts self"

text \<open>
  The two-tier policy as \<open>requestApprovalStatus\<close> composes it (lines 175 to 185) and
  as \<open>myCallback\<close> composes it again (lines 204 to 213).
\<close>

definition requestApprovalStatus_approvalStatus :: "Batch \<Rightarrow> ebool" where
  "requestApprovalStatus_approvalStatus b =
     (let amount = totalAmountEncrypted b;
          numApprovals = numApprovalsEncrypted b;
          threshold2 = threshold2Encrypted b;
          threshold4 = threshold4Encrypted b;
          limit = limitEncrypted b;
          condition1 = FHE_le amount limit;
          condition2 = FHE_gt amount limit
      in FHE_or (FHE_and condition1 (FHE_ge numApprovals threshold2))
                (FHE_and condition2 (FHE_ge numApprovals threshold4)))"

definition myCallback_approvalStatus :: "Batch \<Rightarrow> ebool" where
  "myCallback_approvalStatus batch =
     (let amount = totalAmountEncrypted batch;
          numApprovals = numApprovalsEncrypted batch;
          threshold2 = threshold2Encrypted batch;
          threshold4 = threshold4Encrypted batch;
          limit = limitEncrypted batch;
          condition1 = FHE_le amount limit;
          condition2 = FHE_gt amount limit
      in FHE_or (FHE_and condition1 (FHE_ge numApprovals threshold2))
                (FHE_and condition2 (FHE_ge numApprovals threshold4)))"

definition requestApprovalStatus :: "env \<Rightarrow> uint256 \<Rightarrow> contract \<Rightarrow> error + contract" where
  "requestApprovalStatus e bid =
     whenNotPaused (respectCooldown e (\<lambda>s.
       if bid \<ge> currentBatchId s \<or> \<not> isOpen (batches s bid) then Inl BatchClosed
       else
         let approvalStatus = requestApprovalStatus_approvalStatus (batches s bid);
             cts = [FHE_toBytes32 approvalStatus];
             pinned = hashCiphertexts (this_address s) cts;
             requestId = FHE_requestDecryption e cts
         in Inr (emit (DecryptionRequested requestId bid)
                   (s\<lparr>decryptionContexts :=
                        (decryptionContexts s)
                          (requestId := \<lparr>batchId = bid, stateHash = pinned, processed = False\<rparr>),
                      lastDecryptionRequestTime :=
                        (lastDecryptionRequestTime s)(msg_sender e := block_timestamp e)\<rparr>))))"

definition myCallback :: "env \<Rightarrow> uint256 \<Rightarrow> bytes \<Rightarrow> bytes \<Rightarrow> contract \<Rightarrow> error + contract" where
  "myCallback e requestId cleartexts proof_bytes s =
     (if processed (decryptionContexts s requestId) then Inl ReplayAttempt
      else
        let batch = batches s (batchId (decryptionContexts s requestId));
            approvalStatus = myCallback_approvalStatus batch;
            currentCts = [FHE_toBytes32 approvalStatus];
            currentHash = hashCiphertexts (this_address s) currentCts
        in if currentHash \<noteq> stateHash (decryptionContexts s requestId) then Inl StateMismatch
           else if \<not> FHE_checkSignatures e requestId cleartexts proof_bytes
           then Inl DecryptionFailed
           else case abi_decode_bool cleartexts of
                  None \<Rightarrow> Inl Decode_revert
                | Some approved \<Rightarrow>
                    Inr (emit (DecryptionCompleted requestId
                                 (batchId (decryptionContexts s requestId)) approved)
                           (s\<lparr>decryptionContexts :=
                                (decryptionContexts s)
                                  (requestId :=
                                     (decryptionContexts s requestId)\<lparr>processed := True\<rparr>)\<rparr>)))"

section \<open>Transactions\<close>

text \<open>
  The external entry points.  A transaction that reverts leaves the contract as it was;
  \<open>run\<close> applies a sequence of transactions, each in its own environment.
\<close>

datatype call =
    TransferOwnership address
  | AddProvider address
  | RemoveProvider address
  | Pause
  | Unpause
  | SetCooldownSeconds uint256
  | OpenBatch
  | CloseBatch
  | SetPolicyParameters euint32 euint32 euint32
  | SubmitTransaction euint32 euint32
  | RequestApprovalStatus uint256
  | MyCallback uint256 bytes bytes

definition exec :: "env \<Rightarrow> call \<Rightarrow> contract \<Rightarrow> error + contract" where
  "exec e c =
     (case c of
        TransferOwnership newOwner \<Rightarrow> transferOwnership e newOwner
      | AddProvider provider \<Rightarrow> addProvider e provider
      | RemoveProvider provider \<Rightarrow> removeProvider e provider
      | Pause \<Rightarrow> pause e
      | Unpause \<Rightarrow> unpause e
      | SetCooldownSeconds newCooldown \<Rightarrow> setCooldownSeconds e newCooldown
      | OpenBatch \<Rightarrow> openBatch e
      | CloseBatch \<Rightarrow> closeBatch e
      | SetPolicyParameters threshold2 threshold4 limit \<Rightarrow>
          setPolicyParameters e threshold2 threshold4 limit
      | SubmitTransaction amount numApprovals \<Rightarrow> submitTransaction e amount numApprovals
      | RequestApprovalStatus bid \<Rightarrow> requestApprovalStatus e bid
      | MyCallback requestId cleartexts proof_bytes \<Rightarrow>
          myCallback e requestId cleartexts proof_bytes)"

definition transact :: "contract \<Rightarrow> env \<times> call \<Rightarrow> contract" where
  "transact s t = (case exec (fst t) (snd t) s of Inl err \<Rightarrow> s | Inr s' \<Rightarrow> s')"

definition run :: "contract \<Rightarrow> (env \<times> call) list \<Rightarrow> contract" where
  "run s ts = foldl transact s ts"

section \<open>Scenarios\<close>

text \<open>
  Concrete transactions and storage used to run the model.  \<open>tx_env a t\<close> is a transaction
  sent by \<open>a\<close> at time \<open>t\<close>, with an oracle that assigns request 7 and accepts every proof.
  Address 1 deploys the contract (at address 9) at time 1000, opens batch 1, submits one
  transaction, and pauses.
\<close>

definition tx_env :: "address \<Rightarrow> uint256 \<Rightarrow> env" where
  "tx_env a t =
     \<lparr>msg_sender = a, block_timestamp = t,
      FHE_requestDecryption = (\<lambda>cts. 7),
      FHE_checkSignatures = (\<lambda>requestId cleartexts proof_bytes. True)\<rparr>"

definition deployed :: contract where
  "deployed = constructor 9 (tx_env 1 1000)"

definition opened :: contract where
  "opened = run deployed [(tx_env 1 1000, OpenBatch)]"

definition submitted :: contract where
  "submitted = run opened [(tx_env 1 1000, SubmitTransaction (Ciphertext 0) (Ciphertext 1))]"

definition halted :: contract where
  "halted = run submitted [(tx_env 1 1001, Pause)]"

text \<open>
  Storage written down directly, to exercise the entry points from every storage value
  and not only from those that the constructor leads to: \<open>pending\<close> holds an unprocessed
  context for request 7, pinned to batch 1 as it stands in \<open>opened\<close>; \<open>finalized\<close> holds
  the same context processed; \<open>lagging\<close> has batch 1 open below the batch counter.
\<close>

definition pending :: contract where
  "pending =
     opened\<lparr>decryptionContexts :=
       (decryptionContexts opened)
         (7 := \<lparr>batchId = 1,
                stateHash = hashCiphertexts 9
                  [FHE_toBytes32 (requestApprovalStatus_approvalStatus (batches opened 1))],
                processed = False\<rparr>)\<rparr>"


definition lagging :: contract where
  "lagging = opened\<lparr>currentBatchId := 2\<rparr>"

text \<open>
  A batch holding one submission on top of the defaults (spec, scenarios A and B), and
  the ABI encoding of \<open>true\<close>.
\<close>

definition scenario_batch :: Batch where
  "scenario_batch =
     \<lparr>id_Batch = 0, isOpen = True,
      totalAmountEncrypted = FHE_add (FHE_asEuint32 0) (Ciphertext 0),
      numApprovalsEncrypted = FHE_add (FHE_asEuint32 0) (Ciphertext 1),
      threshold2Encrypted = FHE_asEuint32 2, threshold4Encrypted = FHE_asEuint32 4,
      limitEncrypted = FHE_asEuint32 10000\<rparr>"

definition cleartext_true :: bytes where
  "cleartext_true = replicate 31 0 @ [1]"






text \<open>
  Address 2 is made a provider, submits at time 1000 and is removed again (\<open>dismissed\<close>);
  the owner sets the cooldown to the largest \<open>uint256\<close> after its submission
  (\<open>stretched\<close>); the batch counter stands at the largest \<open>uint256\<close> and the owner opens
  that batch (\<open>exhausted\<close>).
\<close>

definition dismissed :: contract where
  "dismissed =
     run deployed
       [(tx_env 1 1000, AddProvider 2),
        (tx_env 1 1000, OpenBatch),
        (tx_env 2 1000, SubmitTransaction (Ciphertext 0) (Ciphertext 1)),
        (tx_env 1 1001, RemoveProvider 2)]"

definition stretched :: contract where
  "stretched =
     run submitted
       [(tx_env 1 1001,
         SetCooldownSeconds
           115792089237316195423570985008687907853269984665640564039457584007913129639935)]"


section \<open>Basic facts\<close>

lemmas modifier_defs = onlyOwner_def onlyProvider_def whenNotPaused_def respectCooldown_def

lemmas call_defs = transferOwnership_def addProvider_def removeProvider_def pause_def
  unpause_def setCooldownSeconds_def openBatch_def closeBatch_def setPolicyParameters_def
  submitTransaction_def requestApprovalStatus_def myCallback_def

lemmas scenario_defs = tx_env_def deployed_def opened_def submitted_def

lemmas eval_defs = run_def transact_def exec_def call_defs modifier_defs constructor_def emit_def
  update_batch_def empty_batch_def empty_context_def checked_add_def hashCiphertexts_def
  FHE_toBytes32_def requestApprovalStatus_approvalStatus_def myCallback_approvalStatus_def
  Let_def word_le_nat_alt word_less_nat_alt

lemma checked_add_Some: "checked_add a b = Some c \<Longrightarrow> c = a + b \<and> unat c = unat a + unat b"
  by (auto simp: checked_add_def unat_word_ariths split: if_splits)

lemma checked_add_le: "checked_add a b = Some c \<Longrightarrow> a \<le> c"
  using checked_add_Some [of a b c] by (auto simp: word_le_nat_alt)

lemma checked_add_one_less: "checked_add a 1 = Some c \<Longrightarrow> a < c"
  using checked_add_Some [of a 1 c] by (auto simp: word_less_nat_alt)

lemma abi_decode_bool_true: "abi_decode_bool cleartext_true = Some True"
  by code_simp

subsection \<open>Transactions and runs\<close>

lemma transact_cases:
  "transact s t = s \<or> exec (fst t) (snd t) s = Inr (transact s t)"
  by (simp add: transact_def split: sum.splits)

lemma run_Nil: "run s [] = s"
  by (simp add: run_def)

lemma run_Cons: "run s (t # ts) = run (transact s t) ts"
  by (simp add: run_def)

subsection \<open>What a successful call may change\<close>

lemma exec_frame:
  "exec e c s = Inr s' \<Longrightarrow>
     currentBatchId s \<le> currentBatchId s' \<and>
     (\<forall>i. i \<noteq> currentBatchId s \<longrightarrow> batches s' i = batches s i) \<and>
     this_address s' = this_address s"
  by (cases c)
     (auto simp: exec_def call_defs modifier_defs emit_def update_batch_def Let_def
        dest: checked_add_le split: if_splits sum.splits option.splits)

lemma exec_still_open:
  "exec e c s = Inr s' \<Longrightarrow> isOpen (batches s' (currentBatchId s)) \<Longrightarrow>
     currentBatchId s' = currentBatchId s"
  by (cases c)
     (auto simp: exec_def call_defs modifier_defs emit_def update_batch_def Let_def
        split: if_splits sum.splits option.splits)

lemma exec_contexts_frame:
  "exec e c s = Inr s' \<Longrightarrow> \<forall>bid. c \<noteq> RequestApprovalStatus bid \<Longrightarrow>
     \<forall>r cleartexts pf. c \<noteq> MyCallback r cleartexts pf \<Longrightarrow>
     decryptionContexts s' = decryptionContexts s"
  by (cases c)
     (auto simp: exec_def call_defs modifier_defs emit_def update_batch_def Let_def
        split: if_splits sum.splits option.splits)


subsection \<open>Only the current batch can be open\<close>

lemma exec_open_inv:
  assumes "exec e c s = Inr s'" and inv: "\<forall>i. isOpen (batches s i) \<longrightarrow> i = currentBatchId s"
  shows "\<forall>i. isOpen (batches s' i) \<longrightarrow> i = currentBatchId s'"
proof (intro allI impI)
  fix i assume op: "isOpen (batches s' i)"
  have "i = currentBatchId s"
  proof (rule ccontr)
    assume "i \<noteq> currentBatchId s"
    then have "batches s' i = batches s i" using exec_frame [OF assms(1)] by simp
    then show False using op inv \<open>i \<noteq> currentBatchId s\<close> by simp
  qed
  then show "i = currentBatchId s'" using exec_still_open [OF assms(1)] op by simp
qed

lemma constructor_open_inv: "\<not> isOpen (batches (constructor self e) i)"
  by (simp add: constructor_def emit_def empty_batch_def)

lemma run_open_inv:
  "\<forall>i. isOpen (batches s i) \<longrightarrow> i = currentBatchId s \<Longrightarrow>
   \<forall>i. isOpen (batches (run s ts) i) \<longrightarrow> i = currentBatchId (run s ts)"
proof (induction ts arbitrary: s)
  case Nil
  then show ?case by (simp add: run_Nil)
next
  case (Cons t ts)
  have "\<forall>i. isOpen (batches (transact s t) i) \<longrightarrow> i = currentBatchId (transact s t)"
    using transact_cases [of s t] Cons.prems exec_open_inv [of "fst t" "snd t" s "transact s t"]
    by auto
  then show ?case using Cons.IH by (simp add: run_Cons)
qed

lemma run_frame:
  "i < currentBatchId s \<Longrightarrow>
     batches (run s ts) i = batches s i \<and> currentBatchId s \<le> currentBatchId (run s ts)"
proof (induction ts arbitrary: s)
  case Nil
  then show ?case by (simp add: run_Nil)
next
  case (Cons t ts)
  have step: "batches (transact s t) i = batches s i \<and>
              currentBatchId s \<le> currentBatchId (transact s t)"
    using transact_cases [of s t] exec_frame [of "fst t" "snd t" s "transact s t"] Cons.prems
    by auto
  then have "i < currentBatchId (transact s t)" using Cons.prems by (auto intro: less_le_trans)
  from Cons.IH [OF this] step show ?case by (auto simp: run_Cons intro: order_trans)
qed

subsection \<open>Batches above the counter are untouched\<close>




subsection \<open>Single entry points\<close>

lemma closeBatch_Inr:
  "closeBatch e s = Inr s1 \<Longrightarrow>
     msg_sender e = owner s \<and> \<not> paused s \<and> isOpen (batches s (currentBatchId s)) \<and>
     checked_add (currentBatchId s) 1 = Some (currentBatchId s1) \<and>
     s1 = (emit (BatchClosed_event (currentBatchId s))
            (update_batch (currentBatchId s) (\<lambda>b. b\<lparr>isOpen := False\<rparr>) s))
          \<lparr>currentBatchId := currentBatchId s + 1\<rparr>"
  by (auto simp: closeBatch_def modifier_defs Let_def emit_def update_batch_def
      dest!: checked_add_Some split: if_splits option.splits)

lemma onlyProvider_Inr:
  "onlyProvider e body s = Inr s' \<Longrightarrow>
     isProvider s (msg_sender e) \<and>
     (\<exists>s1. body s = Inr s1 \<and>
        s' = s1\<lparr>lastSubmissionTime := (lastSubmissionTime s1)(msg_sender e := block_timestamp e)\<rparr>)"
  by (auto simp: onlyProvider_def split: if_splits sum.splits)

lemma onlyProvider_error:
  "onlyProvider e body s = Inl err \<longleftrightarrow>
     (\<not> isProvider s (msg_sender e) \<and> err = NotProvider) \<or>
     (isProvider s (msg_sender e) \<and> body s = Inl err)"
  by (auto simp: onlyProvider_def split: sum.splits)

lemma whenNotPaused_error:
  "whenNotPaused body s = Inl err \<longleftrightarrow>
     (paused s \<and> err = Paused) \<or> (\<not> paused s \<and> body s = Inl err)"
  by (auto simp: whenNotPaused_def)

lemma respectCooldown_Inr:
  "respectCooldown e body s = Inr s' \<Longrightarrow>
     unat (lastSubmissionTime s (msg_sender e)) + unat (cooldownSeconds s)
       \<le> unat (block_timestamp e) \<and>
     unat (lastDecryptionRequestTime s (msg_sender e)) + unat (cooldownSeconds s)
       \<le> unat (block_timestamp e) \<and>
     body s = Inr s'"
  by (auto simp: respectCooldown_def word_less_nat_alt dest!: checked_add_Some
      split: option.splits if_splits)

lemma respectCooldown_CooldownActive:
  "\<forall>s. body s \<noteq> Inl CooldownActive \<Longrightarrow>
   respectCooldown e body s = Inl CooldownActive \<longleftrightarrow>
     unat (lastSubmissionTime s (msg_sender e)) + unat (cooldownSeconds s) < 2 ^ 256 \<and>
     (unat (block_timestamp e)
        < unat (lastSubmissionTime s (msg_sender e)) + unat (cooldownSeconds s) \<or>
      unat (lastDecryptionRequestTime s (msg_sender e)) + unat (cooldownSeconds s) < 2 ^ 256 \<and>
      unat (block_timestamp e)
        < unat (lastDecryptionRequestTime s (msg_sender e)) + unat (cooldownSeconds s))"
  by (auto simp: respectCooldown_def checked_add_def word_less_nat_alt unat_word_ariths
      split: option.splits if_splits)


lemma respectCooldown_Panic:
  "\<forall>s. body s \<noteq> Inl Panic_overflow \<Longrightarrow>
   respectCooldown e body s = Inl Panic_overflow \<longleftrightarrow>
     \<not> unat (lastSubmissionTime s (msg_sender e)) + unat (cooldownSeconds s) < 2 ^ 256 \<or>
     \<not> unat (block_timestamp e)
        < unat (lastSubmissionTime s (msg_sender e)) + unat (cooldownSeconds s) \<and>
     \<not> unat (lastDecryptionRequestTime s (msg_sender e)) + unat (cooldownSeconds s) < 2 ^ 256"
  by (auto simp: respectCooldown_def checked_add_def word_less_nat_alt unat_word_ariths
      split: option.splits if_splits)


lemma requestApprovalStatus_dead:
  "\<forall>i. isOpen (batches s i) \<longrightarrow> i = currentBatchId s \<Longrightarrow>
     \<exists>err. requestApprovalStatus e bid s = Inl err"
  by (auto simp: requestApprovalStatus_def modifier_defs split: option.splits)


lemma myCallback_unknown_request:
  "decryptionContexts s r = empty_context \<Longrightarrow>
     myCallback e r cleartexts pf s = Inl StateMismatch"
  by (simp add: myCallback_def empty_context_def hashCiphertexts_def Let_def)

section \<open>Requesting the approval status\<close>

text \<open>
  Claim C1: a call \<open>requestApprovalStatus(batchId)\<close> made while the system is not paused
  and both cooldown clocks of the caller are satisfied succeeds exactly when batch
  \<open>batchId\<close> exists and is open; in particular it succeeds against the currently open
  batch.  The guard of the function is \<open>batchId >= currentBatchId\<close>, and the open batch is
  the one numbered \<open>currentBatchId\<close>: after deployment, \<open>openBatch\<close> and one submission by
  the owner, batch 1 is open and is the current batch, the system is not paused, address 2
  has never acted, and its request for batch 1 at time 2000 reverts with \<open>BatchClosed\<close>.
\<close>

theorem requestApprovalStatus_rejects_open_batch:
  "isOpen (batches submitted 1) \<and> currentBatchId submitted = 1 \<and> \<not> paused submitted \<and>
   unat (lastSubmissionTime submitted 2) + unat (cooldownSeconds submitted) \<le> 2000 \<and>
   unat (lastDecryptionRequestTime submitted 2) + unat (cooldownSeconds submitted) \<le> 2000 \<and>
   requestApprovalStatus (tx_env 2 2000) 1 submitted = Inl BatchClosed"
  by (simp add: scenario_defs eval_defs)

section \<open>The predicate evaluator\<close>

text \<open>
  Claim C2: for every plaintext interpretation of the five encrypted fields of a batch,
  the encrypted boolean that \<open>requestApprovalStatus\<close> computes decrypts to
  \<open>(amount \<le> limit \<and> approvals \<ge> thresholdLow) \<or> (amount > limit \<and> approvals \<ge> thresholdHigh)\<close>;
  \<open>myCallback\<close> recomputes the very same handle; and both disjuncts are computed on every
  call: the result is the encrypted \<open>or\<close> of two handles, one for each tier, whatever the
  plaintexts are.
\<close>

theorem approvalStatus_decrypts_to_policy:
  fixes pt b
  defines "amount \<equiv> decrypt32 pt (totalAmountEncrypted b)"
      and "approvals \<equiv> decrypt32 pt (numApprovalsEncrypted b)"
      and "thresholdLow \<equiv> decrypt32 pt (threshold2Encrypted b)"
      and "thresholdHigh \<equiv> decrypt32 pt (threshold4Encrypted b)"
      and "limit \<equiv> decrypt32 pt (limitEncrypted b)"
  shows "decryptBool pt (requestApprovalStatus_approvalStatus b) =
           ((amount \<le> limit \<and> approvals \<ge> thresholdLow) \<or>
            (amount > limit \<and> approvals \<ge> thresholdHigh)) \<and>
         myCallback_approvalStatus b = requestApprovalStatus_approvalStatus b \<and>
         (\<exists>low high.
            requestApprovalStatus_approvalStatus b = FHE_or low high \<and>
            decryptBool pt low = (amount \<le> limit \<and> approvals \<ge> thresholdLow) \<and>
            decryptBool pt high = (amount > limit \<and> approvals \<ge> thresholdHigh))"
  by (simp add: requestApprovalStatus_approvalStatus_def myCallback_approvalStatus_def
      Let_def assms)

text \<open>
  Scenarios A and B of the spec: amount 5000 with 2 approvals is approved; amount 15000
  with 3 approvals is not.
\<close>

theorem approvalStatus_scenarios:
  "decryptBool ((\<lambda>k. 0)(0 := 5000, 1 := 2))
     (requestApprovalStatus_approvalStatus scenario_batch) \<and>
   \<not> decryptBool ((\<lambda>k. 0)(0 := 15000, 1 := 3))
     (myCallback_approvalStatus scenario_batch)"
  using approvalStatus_decrypts_to_policy [of "(\<lambda>k. 0)(0 := 5000, 1 := 2)" scenario_batch]
    approvalStatus_decrypts_to_policy [of "(\<lambda>k. 0)(0 := 15000, 1 := 3)" scenario_batch]
  by (simp add: scenario_batch_def)

section \<open>The callback\<close>







text \<open>
  Claim C5: for a call of \<open>myCallback\<close> on an unprocessed context whose recomputed hash
  equals the pinned hash, a proof that \<open>checkSignatures\<close> rejects makes the call fail with
  \<open>DecryptionFailed\<close>, and the context stays unprocessed; and the call succeeds only if all
  three checks (replay, state hash, proof) pass, in which case it sets \<open>processed\<close> and
  emits \<open>DecryptionCompleted\<close> with the request id, the batch id of the context and the
  boolean decoded from the cleartexts, and changes nothing else.  When the three checks
  pass, the call succeeds as soon as the cleartexts decode to a boolean.
\<close>

theorem myCallback_checks:
  fixes s r e cleartexts proof_bytes
  defines "ctx \<equiv> decryptionContexts s r"
  defines "currentHash \<equiv>
     hashCiphertexts (this_address s)
       [FHE_toBytes32 (myCallback_approvalStatus (batches s (batchId ctx)))]"
  shows "(\<not> processed ctx \<and> currentHash = stateHash ctx \<and>
            \<not> FHE_checkSignatures e r cleartexts proof_bytes \<longrightarrow>
            myCallback e r cleartexts proof_bytes s = Inl DecryptionFailed \<and>
            \<not> processed (decryptionContexts
                 (transact s (e, MyCallback r cleartexts proof_bytes)) r)) \<and>
         (\<forall>s'. myCallback e r cleartexts proof_bytes s = Inr s' \<longrightarrow>
            \<not> processed ctx \<and> currentHash = stateHash ctx \<and>
            FHE_checkSignatures e r cleartexts proof_bytes \<and>
            processed (decryptionContexts s' r) \<and>
            (\<exists>approved. abi_decode_bool cleartexts = Some approved \<and>
               events s' = events s @ [DecryptionCompleted r (batchId ctx) approved] \<and>
               s' = emit (DecryptionCompleted r (batchId ctx) approved)
                      (s\<lparr>decryptionContexts :=
                           (decryptionContexts s)(r := ctx\<lparr>processed := True\<rparr>)\<rparr>))) \<and>
         (\<forall>approved.
            \<not> processed ctx \<and> currentHash = stateHash ctx \<and>
            FHE_checkSignatures e r cleartexts proof_bytes \<and>
            abi_decode_bool cleartexts = Some approved \<longrightarrow>
            (\<exists>s'. myCallback e r cleartexts proof_bytes s = Inr s'))"
  by (auto simp: myCallback_def Let_def emit_def transact_def exec_def assms
      split: if_splits option.splits)

theorem myCallback_checks_witness:
  "myCallback ((tx_env 3 2000)\<lparr>FHE_checkSignatures := (\<lambda>requestId cleartexts proof_bytes. False)\<rparr>)
     7 cleartext_true [] pending = Inl DecryptionFailed \<and>
   processed (decryptionContexts (transact pending (tx_env 3 2000, MyCallback 7 cleartext_true [])) 7) \<and>
   events (transact pending (tx_env 3 2000, MyCallback 7 cleartext_true [])) =
     events pending @ [DecryptionCompleted 7 1 True]"
proof -
  let ?bad = "(tx_env 3 2000)\<lparr>FHE_checkSignatures := (\<lambda>requestId cleartexts proof_bytes. False)\<rparr>"
  let ?s' = "transact pending (tx_env 3 2000, MyCallback 7 cleartext_true [])"
  have pre: "\<not> processed (decryptionContexts pending 7) \<and>
     hashCiphertexts (this_address pending)
       [FHE_toBytes32 (myCallback_approvalStatus
          (batches pending (batchId (decryptionContexts pending 7))))] =
     stateHash (decryptionContexts pending 7) \<and>
     \<not> FHE_checkSignatures ?bad 7 cleartext_true []"
    by (simp add: scenario_defs pending_def eval_defs)
  have ok: "myCallback (tx_env 3 2000) 7 cleartext_true [] pending = Inr ?s'"
    by (simp add: scenario_defs pending_def eval_defs abi_decode_bool_true)
  have dec: "abi_decode_bool cleartext_true = Some True"
    by (rule abi_decode_bool_true)
  have b: "batchId (decryptionContexts pending 7) = 1"
    by (simp add: scenario_defs pending_def)
  from myCallback_checks [of pending 7 ?bad cleartext_true "[]"] pre
  have 1: "myCallback ?bad 7 cleartext_true [] pending = Inl DecryptionFailed" by blast
  from myCallback_checks [of pending 7 "tx_env 3 2000" cleartext_true "[]"] ok dec b
  have 2: "processed (decryptionContexts ?s' 7) \<and>
           events ?s' = events pending @ [DecryptionCompleted 7 1 True]"
    by auto
  from 1 2 show ?thesis by simp
qed

section \<open>The cooldown\<close>

text \<open>
  Claim C6, as amended: whenever the current time is strictly before the caller's
  last-submission timestamp plus \<open>cooldownSeconds\<close>, or strictly before the caller's
  last-decryption-request timestamp plus \<open>cooldownSeconds\<close>, every call of
  \<open>submitTransaction\<close>, \<open>setPolicyParameters\<close> or \<open>requestApprovalStatus\<close> fails; both clocks
  gate each of these actions, which proceeds only when both sums are at or before the
  current time.  The error is the first that applies: \<open>NotProvider\<close> for a caller of
  \<open>submitTransaction\<close> or \<open>setPolicyParameters\<close> that is not a provider; \<open>Paused\<close> when the
  system is paused; otherwise \<open>CooldownActive\<close>, unless a sum that the check computes (the
  submission sum, and the request sum once the time is not before the submission sum)
  exceeds the \<open>uint256\<close> range, in which case the checked addition panics.
\<close>

theorem cooldown_gate:
  fixes e s
  defines "now \<equiv> unat (block_timestamp e)"
      and "submissionEnd \<equiv>
             unat (lastSubmissionTime s (msg_sender e)) + unat (cooldownSeconds s)"
      and "requestEnd \<equiv>
             unat (lastDecryptionRequestTime s (msg_sender e)) + unat (cooldownSeconds s)"
  defines "active \<equiv> now < submissionEnd \<or> now < requestEnd"
      and "overflows \<equiv> \<not> submissionEnd < 2 ^ 256 \<or>
                         \<not> now < submissionEnd \<and> \<not> requestEnd < 2 ^ 256"
  shows "(active \<longrightarrow>
            (\<forall>s'. submitTransaction e amount numApprovals s \<noteq> Inr s' \<and>
                  setPolicyParameters e threshold2 threshold4 limit s \<noteq> Inr s' \<and>
                  requestApprovalStatus e bid s \<noteq> Inr s')) \<and>
         (\<not> isProvider s (msg_sender e) \<longrightarrow>
            submitTransaction e amount numApprovals s = Inl NotProvider \<and>
            setPolicyParameters e threshold2 threshold4 limit s = Inl NotProvider) \<and>
         (isProvider s (msg_sender e) \<and> paused s \<longrightarrow>
            submitTransaction e amount numApprovals s = Inl Paused \<and>
            setPolicyParameters e threshold2 threshold4 limit s = Inl Paused) \<and>
         (paused s \<longrightarrow> requestApprovalStatus e bid s = Inl Paused) \<and>
         (isProvider s (msg_sender e) \<and> \<not> paused s \<and> active \<and> \<not> overflows \<longrightarrow>
            submitTransaction e amount numApprovals s = Inl CooldownActive \<and>
            setPolicyParameters e threshold2 threshold4 limit s = Inl CooldownActive) \<and>
         (\<not> paused s \<and> active \<and> \<not> overflows \<longrightarrow>
            requestApprovalStatus e bid s = Inl CooldownActive) \<and>
         (isProvider s (msg_sender e) \<and> \<not> paused s \<and> overflows \<longrightarrow>
            submitTransaction e amount numApprovals s = Inl Panic_overflow \<and>
            setPolicyParameters e threshold2 threshold4 limit s = Inl Panic_overflow) \<and>
         (\<not> paused s \<and> overflows \<longrightarrow>
            requestApprovalStatus e bid s = Inl Panic_overflow) \<and>
         (submitTransaction e amount numApprovals s = Inl CooldownActive \<longleftrightarrow>
            isProvider s (msg_sender e) \<and> \<not> paused s \<and> active \<and> \<not> overflows) \<and>
         (setPolicyParameters e threshold2 threshold4 limit s = Inl CooldownActive \<longleftrightarrow>
            isProvider s (msg_sender e) \<and> \<not> paused s \<and> active \<and> \<not> overflows) \<and>
         (requestApprovalStatus e bid s = Inl CooldownActive \<longleftrightarrow>
            \<not> paused s \<and> active \<and> \<not> overflows)"
proof -
  have a: "submitTransaction e amount numApprovals s \<noteq> Inr s'
        \<and> setPolicyParameters e threshold2 threshold4 limit s \<noteq> Inr s'
        \<and> requestApprovalStatus e bid s \<noteq> Inr s'"
    if "active" for s'
    using that
    by (auto simp: submitTransaction_def setPolicyParameters_def requestApprovalStatus_def
          onlyProvider_def whenNotPaused_def now_def submissionEnd_def requestEnd_def
          active_def
        dest!: respectCooldown_Inr split: if_splits sum.splits)
  have np: "\<not> isProvider s (msg_sender e) \<longrightarrow>
            submitTransaction e amount numApprovals s = Inl NotProvider \<and>
            setPolicyParameters e threshold2 threshold4 limit s = Inl NotProvider"
    by (simp add: submitTransaction_def setPolicyParameters_def onlyProvider_def)
  have pa: "isProvider s (msg_sender e) \<and> paused s \<longrightarrow>
            submitTransaction e amount numApprovals s = Inl Paused \<and>
            setPolicyParameters e threshold2 threshold4 limit s = Inl Paused"
    by (simp add: submitTransaction_def setPolicyParameters_def onlyProvider_def
          whenNotPaused_def)
  have pr: "paused s \<longrightarrow> requestApprovalStatus e bid s = Inl Paused"
    by (simp add: requestApprovalStatus_def whenNotPaused_def)
  have b: "submitTransaction e amount numApprovals s = Inl CooldownActive \<longleftrightarrow>
            isProvider s (msg_sender e) \<and> \<not> paused s \<and> active \<and> \<not> overflows"
    unfolding active_def overflows_def now_def submissionEnd_def requestEnd_def
    by (simp add: submitTransaction_def onlyProvider_error whenNotPaused_error
          respectCooldown_CooldownActive) blast
  have c: "setPolicyParameters e threshold2 threshold4 limit s = Inl CooldownActive \<longleftrightarrow>
            isProvider s (msg_sender e) \<and> \<not> paused s \<and> active \<and> \<not> overflows"
    unfolding active_def overflows_def now_def submissionEnd_def requestEnd_def
    by (simp add: setPolicyParameters_def onlyProvider_error whenNotPaused_error
          respectCooldown_CooldownActive) blast
  have d: "requestApprovalStatus e bid s = Inl CooldownActive \<longleftrightarrow>
            \<not> paused s \<and> active \<and> \<not> overflows"
    unfolding active_def overflows_def now_def submissionEnd_def requestEnd_def
    by (simp add: requestApprovalStatus_def whenNotPaused_error
          respectCooldown_CooldownActive Let_def) blast
  have b': "submitTransaction e amount numApprovals s = Inl Panic_overflow \<longleftrightarrow>
            isProvider s (msg_sender e) \<and> \<not> paused s \<and> overflows"
    unfolding overflows_def now_def submissionEnd_def requestEnd_def
    by (simp add: submitTransaction_def onlyProvider_error whenNotPaused_error
          respectCooldown_Panic)
  have c': "setPolicyParameters e threshold2 threshold4 limit s = Inl Panic_overflow \<longleftrightarrow>
            isProvider s (msg_sender e) \<and> \<not> paused s \<and> overflows"
    unfolding overflows_def now_def submissionEnd_def requestEnd_def
    by (simp add: setPolicyParameters_def onlyProvider_error whenNotPaused_error
          respectCooldown_Panic)
  have d': "requestApprovalStatus e bid s = Inl Panic_overflow \<longleftrightarrow>
            \<not> paused s \<and> overflows"
    unfolding overflows_def now_def submissionEnd_def requestEnd_def
    by (simp add: requestApprovalStatus_def whenNotPaused_error
          respectCooldown_Panic Let_def)
  from a np pa pr b c d b' c' d' show ?thesis by blast
qed

theorem cooldown_gate_witness:
  "submitTransaction (tx_env 1 1030) (Ciphertext 2) (Ciphertext 3) submitted = Inl CooldownActive \<and>
   setPolicyParameters (tx_env 1 1030) (FHE_asEuint32 1) (FHE_asEuint32 2) (FHE_asEuint32 3)
     submitted = Inl CooldownActive \<and>
   requestApprovalStatus (tx_env 1 1030) 1 submitted = Inl CooldownActive \<and>
   submitTransaction (tx_env 1 1010) (Ciphertext 2) (Ciphertext 3) halted = Inl Paused \<and>
   requestApprovalStatus (tx_env 1 1010) 1 halted = Inl Paused \<and>
   setPolicyParameters (tx_env 2 1010) (FHE_asEuint32 1) (FHE_asEuint32 2) (FHE_asEuint32 3)
     dismissed = Inl NotProvider \<and>
   submitTransaction (tx_env 1 2000) (Ciphertext 2) (Ciphertext 3) stretched = Inl Panic_overflow \<and>
   requestApprovalStatus (tx_env 1 2000) 1 stretched = Inl Panic_overflow"
proof -
  have su: "isProvider submitted (msg_sender (tx_env 1 1030))"
    "\<not> paused submitted"
    "unat (block_timestamp (tx_env 1 1030)) <
      unat (lastSubmissionTime submitted (msg_sender (tx_env 1 1030))) +
      unat (cooldownSeconds submitted)"
    "unat (lastSubmissionTime submitted (msg_sender (tx_env 1 1030))) +
      unat (cooldownSeconds submitted) < 2 ^ 256"
    by (simp_all add: scenario_defs eval_defs)
  have ha: "isProvider halted (msg_sender (tx_env 1 1010))" "paused halted"
    by (simp_all add: halted_def scenario_defs eval_defs)
  have di: "\<not> isProvider dismissed (msg_sender (tx_env 2 1010))"
    by (simp add: dismissed_def scenario_defs eval_defs)
  have st: "isProvider stretched (msg_sender (tx_env 1 2000))"
    "\<not> paused stretched"
    "\<not> unat (lastSubmissionTime stretched (msg_sender (tx_env 1 2000))) +
      unat (cooldownSeconds stretched) < 2 ^ 256"
    by (simp_all add: stretched_def scenario_defs eval_defs)
  from cooldown_gate [of "tx_env 1 1030" submitted "Ciphertext 2" "Ciphertext 3"
      "FHE_asEuint32 1" "FHE_asEuint32 2" "FHE_asEuint32 3" 1] su
  have 1: "submitTransaction (tx_env 1 1030) (Ciphertext 2) (Ciphertext 3) submitted
             = Inl CooldownActive \<and>
     setPolicyParameters (tx_env 1 1030) (FHE_asEuint32 1) (FHE_asEuint32 2) (FHE_asEuint32 3)
       submitted = Inl CooldownActive \<and>
     requestApprovalStatus (tx_env 1 1030) 1 submitted = Inl CooldownActive"
    by blast
  from cooldown_gate [of "tx_env 1 1010" halted "Ciphertext 2" "Ciphertext 3" _ _ _ 1] ha
  have 2: "submitTransaction (tx_env 1 1010) (Ciphertext 2) (Ciphertext 3) halted = Inl Paused \<and>
     requestApprovalStatus (tx_env 1 1010) 1 halted = Inl Paused"
    by blast
  from cooldown_gate [of "tx_env 2 1010" dismissed _ _
      "FHE_asEuint32 1" "FHE_asEuint32 2" "FHE_asEuint32 3"] di
  have 3: "setPolicyParameters (tx_env 2 1010) (FHE_asEuint32 1) (FHE_asEuint32 2)
             (FHE_asEuint32 3) dismissed = Inl NotProvider"
    by blast
  from cooldown_gate [of "tx_env 1 2000" stretched "Ciphertext 2" "Ciphertext 3" _ _ _ 1] st
  have 4: "submitTransaction (tx_env 1 2000) (Ciphertext 2) (Ciphertext 3) stretched
             = Inl Panic_overflow \<and>
     requestApprovalStatus (tx_env 1 2000) 1 stretched = Inl Panic_overflow"
    by blast
  from 1 2 3 4 show ?thesis by simp
qed

text \<open>
  The claim as first stated, with \<open>CooldownActive\<close> as the error of every such call, fails
  in three ways, each inside the cooldown of the caller.  The system has been paused since
  the owner's submission at time 1000: its \<open>submitTransaction\<close> at 1010 reverts with
  \<open>Paused\<close>.  Address 2 has been removed from the providers since its submission at time
  1000: its \<open>submitTransaction\<close> at 1010 reverts with \<open>NotProvider\<close>.  The cooldown has been
  set to the largest \<open>uint256\<close> since the owner's submission at time 1000: its
  \<open>submitTransaction\<close> at 2000 reverts with the overflow panic.
\<close>

theorem cooldown_gate_counterexample:
  "unat (block_timestamp (tx_env 1 1010)) <
     unat (lastSubmissionTime halted (msg_sender (tx_env 1 1010))) + unat (cooldownSeconds halted) \<and>
   submitTransaction (tx_env 1 1010) (Ciphertext 2) (Ciphertext 3) halted = Inl Paused \<and>
   submitTransaction (tx_env 1 1010) (Ciphertext 2) (Ciphertext 3) halted \<noteq> Inl CooldownActive \<and>
   unat (block_timestamp (tx_env 2 1010)) <
     unat (lastSubmissionTime dismissed (msg_sender (tx_env 2 1010))) +
     unat (cooldownSeconds dismissed) \<and>
   submitTransaction (tx_env 2 1010) (Ciphertext 2) (Ciphertext 3) dismissed = Inl NotProvider \<and>
   unat (block_timestamp (tx_env 1 2000)) <
     unat (lastSubmissionTime stretched (msg_sender (tx_env 1 2000))) +
     unat (cooldownSeconds stretched) \<and>
   submitTransaction (tx_env 1 2000) (Ciphertext 2) (Ciphertext 3) stretched = Inl Panic_overflow"
  by (simp add: halted_def dismissed_def stretched_def scenario_defs eval_defs)

text \<open>
  Claim C7: a successful \<open>submitTransaction\<close> or \<open>setPolicyParameters\<close> sets the caller's
  last-submission timestamp to the block timestamp and changes no other timestamp of
  either clock; a successful \<open>requestApprovalStatus\<close> sets the caller's
  last-decryption-request timestamp and changes no other timestamp of either clock; and a
  call that fails, whichever entry point it is, leaves both clocks of every address as
  they were.
\<close>

theorem cooldown_clocks_frame:
  "(submitTransaction e amount numApprovals s = Inr s' \<longrightarrow>
      lastSubmissionTime s' = (lastSubmissionTime s)(msg_sender e := block_timestamp e) \<and>
      lastDecryptionRequestTime s' = lastDecryptionRequestTime s) \<and>
   (setPolicyParameters e threshold2 threshold4 limit s = Inr s' \<longrightarrow>
      lastSubmissionTime s' = (lastSubmissionTime s)(msg_sender e := block_timestamp e) \<and>
      lastDecryptionRequestTime s' = lastDecryptionRequestTime s) \<and>
   (requestApprovalStatus e bid s = Inr s' \<longrightarrow>
      lastDecryptionRequestTime s' =
        (lastDecryptionRequestTime s)(msg_sender e := block_timestamp e) \<and>
      lastSubmissionTime s' = lastSubmissionTime s) \<and>
   (\<forall>c err. exec e c s = Inl err \<longrightarrow>
      lastSubmissionTime (transact s (e, c)) = lastSubmissionTime s \<and>
      lastDecryptionRequestTime (transact s (e, c)) = lastDecryptionRequestTime s)"
proof -
  have a: "lastSubmissionTime s' = (lastSubmissionTime s)(msg_sender e := block_timestamp e) \<and>
      lastDecryptionRequestTime s' = lastDecryptionRequestTime s"
    if "submitTransaction e amount numApprovals s = Inr s'"
    using that
    by (auto simp: submitTransaction_def whenNotPaused_def respectCooldown_def emit_def
          update_batch_def dest!: onlyProvider_Inr split: if_splits option.splits)
  have b: "lastSubmissionTime s' = (lastSubmissionTime s)(msg_sender e := block_timestamp e) \<and>
      lastDecryptionRequestTime s' = lastDecryptionRequestTime s"
    if "setPolicyParameters e threshold2 threshold4 limit s = Inr s'"
    using that
    by (auto simp: setPolicyParameters_def whenNotPaused_def respectCooldown_def emit_def
          update_batch_def dest!: onlyProvider_Inr split: if_splits option.splits)
  have c: "lastDecryptionRequestTime s' =
        (lastDecryptionRequestTime s)(msg_sender e := block_timestamp e) \<and>
      lastSubmissionTime s' = lastSubmissionTime s"
    if "requestApprovalStatus e bid s = Inr s'"
    using that
    by (auto simp: requestApprovalStatus_def whenNotPaused_def respectCooldown_def emit_def
          Let_def split: if_splits option.splits)
  have d: "transact s (e, c) = s" if "exec e c s = Inl err" for c err
    using that by (simp add: transact_def)
  from a b c d show ?thesis by simp
qed

theorem cooldown_clocks_frame_witness:
  "lastSubmissionTime submitted 1 = 1000 \<and> lastDecryptionRequestTime submitted 1 = 0 \<and>
   lastSubmissionTime
     (transact opened
        (tx_env 1 1000, SetPolicyParameters (Ciphertext 2) (Ciphertext 3) (Ciphertext 4))) 1
     = 1000 \<and>
   lastDecryptionRequestTime (transact lagging (tx_env 2 2000, RequestApprovalStatus 1)) 2 = 2000 \<and>
   lastSubmissionTime (transact lagging (tx_env 2 2000, RequestApprovalStatus 1)) 2 = 0 \<and>
   lastSubmissionTime
     (transact submitted (tx_env 1 1030, SubmitTransaction (Ciphertext 2) (Ciphertext 3))) 1
     = 1000"
proof -
  let ?e = "tx_env 1 1000"
  have a: "submitTransaction ?e (Ciphertext 0) (Ciphertext 1) opened = Inr submitted"
    by (simp add: scenario_defs lagging_def eval_defs)
  have a0: "lastSubmissionTime opened = (\<lambda>a. 0) \<and> lastDecryptionRequestTime opened = (\<lambda>a. 0)"
    by (simp add: scenario_defs lagging_def eval_defs)
  let ?r = "transact lagging (tx_env 2 2000, RequestApprovalStatus 1)"
  have b: "requestApprovalStatus (tx_env 2 2000) 1 lagging = Inr ?r"
    by (simp add: scenario_defs lagging_def eval_defs)
  have b0: "lastSubmissionTime lagging = (\<lambda>a. 0) \<and> lastDecryptionRequestTime lagging = (\<lambda>a. 0)"
    by (simp add: scenario_defs lagging_def eval_defs)
  have c: "exec (tx_env 1 1030) (SubmitTransaction (Ciphertext 2) (Ciphertext 3)) submitted
             = Inl CooldownActive"
    by (simp add: scenario_defs lagging_def eval_defs)
  have s: "lastSubmissionTime submitted 1 = 1000"
    using cooldown_clocks_frame [of ?e "Ciphertext 0" "Ciphertext 1" opened submitted] a a0
    by (simp add: tx_env_def)
  have s': "lastDecryptionRequestTime submitted 1 = 0"
    using cooldown_clocks_frame [of ?e "Ciphertext 0" "Ciphertext 1" opened submitted] a a0
    by simp
  have r: "lastDecryptionRequestTime ?r 2 = 2000 \<and> lastSubmissionTime ?r 2 = 0"
    using cooldown_clocks_frame [of "tx_env 2 2000" _ _ lagging ?r _ _ _ 1] b b0
    by (simp add: tx_env_def)
  have f: "lastSubmissionTime
      (transact submitted (tx_env 1 1030, SubmitTransaction (Ciphertext 2) (Ciphertext 3))) 1
     = lastSubmissionTime submitted 1"
    using cooldown_clocks_frame [of "tx_env 1 1030" _ _ submitted] c by metis
  let ?p = "transact opened
        (tx_env 1 1000, SetPolicyParameters (Ciphertext 2) (Ciphertext 3) (Ciphertext 4))"
  have p: "setPolicyParameters ?e (Ciphertext 2) (Ciphertext 3) (Ciphertext 4) opened = Inr ?p"
    by (simp add: scenario_defs eval_defs)
  have q: "lastSubmissionTime ?p 1 = 1000"
    using cooldown_clocks_frame [of ?e _ _ opened ?p "Ciphertext 2" "Ciphertext 3" "Ciphertext 4"]
      p a0
    by (simp add: tx_env_def)
  from s s' r f q show ?thesis by simp
qed

section \<open>The batch lifecycle\<close>

text \<open>
  Claim C8: in every state that the constructor and any sequence of transactions lead to,
  at most one batch is open, and an open batch is the one numbered \<open>currentBatchId\<close>; and
  once \<open>closeBatch\<close> has closed a batch, no later sequence of transactions (of any entry
  point) changes its stored fields.
\<close>

theorem closed_batches_frozen:
  fixes self e0 ts
  defines "s \<equiv> run (constructor self e0) ts"
  shows "(\<forall>i j. isOpen (batches s i) \<and> isOpen (batches s j) \<longrightarrow> i = j) \<and>
         (\<forall>i. isOpen (batches s i) \<longrightarrow> i = currentBatchId s) \<and>
         (\<forall>e s1 ts'. closeBatch e s = Inr s1 \<longrightarrow>
            \<not> isOpen (batches s1 (currentBatchId s)) \<and>
            batches (run s1 ts') (currentBatchId s) = batches s1 (currentBatchId s))"
proof -
  have inv: "\<forall>i. isOpen (batches s i) \<longrightarrow> i = currentBatchId s"
    unfolding s_def by (rule run_open_inv) (simp add: constructor_open_inv)
  have frozen: "\<not> isOpen (batches s1 (currentBatchId s)) \<and>
      batches (run s1 ts') (currentBatchId s) = batches s1 (currentBatchId s)"
    if c: "closeBatch e s = Inr s1" for e s1 ts'
  proof -
    from closeBatch_Inr [OF c] have lt: "currentBatchId s < currentBatchId s1"
      and cl: "\<not> isOpen (batches s1 (currentBatchId s))"
      by (auto dest: checked_add_one_less simp: emit_def update_batch_def)
    from run_frame [OF lt] cl show ?thesis by simp
  qed
  from inv have "\<forall>i j. isOpen (batches s i) \<and> isOpen (batches s j) \<longrightarrow> i = j" by metis
  with inv frozen show ?thesis by blast
qed

theorem closed_batches_frozen_witness:
  "isOpen (batches opened 1) \<and> currentBatchId opened = 1 \<and>
   \<not> isOpen (batches (transact opened (tx_env 1 1001, CloseBatch)) 1) \<and>
   batches (run (transact opened (tx_env 1 1001, CloseBatch))
              [(tx_env 1 1002, OpenBatch),
               (tx_env 1 1003, SubmitTransaction (Ciphertext 0) (Ciphertext 1)),
               (tx_env 1 1100, SetPolicyParameters (Ciphertext 2) (Ciphertext 3) (Ciphertext 4)),
               (tx_env 1 1200, CloseBatch)]) 1 =
   batches (transact opened (tx_env 1 1001, CloseBatch)) 1"
proof -
  have o: "isOpen (batches opened 1) \<and> currentBatchId opened = 1"
    by (simp add: scenario_defs eval_defs)
  have c: "closeBatch (tx_env 1 1001) opened = Inr (transact opened (tx_env 1 1001, CloseBatch))"
    by (simp add: scenario_defs eval_defs)
  have r: "opened = run (constructor 9 (tx_env 1 1000)) [(tx_env 1 1000, OpenBatch)]"
    by (simp add: opened_def deployed_def)
  from closed_batches_frozen [of 9 "tx_env 1 1000" "[(tx_env 1 1000, OpenBatch)]"] o c
  show ?thesis unfolding r [symmetric] by metis
qed




section \<open>Deployment\<close>

text \<open>
  Claim C10: right after deployment the deployer is the owner and an authorized provider
  (the constructor sets \<open>isProvider[owner]\<close> and emits \<open>ProviderAdded\<close>), so the owner passes
  the provider guard of \<open>submitTransaction\<close> and \<open>setPolicyParameters\<close> without any call of
  \<open>addProvider\<close>: once it has opened a batch, both calls succeed at any time from 60 on
  (the default cooldown counted from timestamp 0).
\<close>

theorem constructor_owner_is_provider:
  fixes self e
  defines "s0 \<equiv> constructor self e"
  shows "owner s0 = msg_sender e \<and> isProvider s0 (msg_sender e) \<and>
         events s0 = [ProviderAdded (msg_sender e)] \<and>
         (\<forall>e1 amount numApprovals threshold2 threshold4 limit.
            msg_sender e1 = msg_sender e \<longrightarrow>
            submitTransaction e1 amount numApprovals s0 \<noteq> Inl NotProvider \<and>
            setPolicyParameters e1 threshold2 threshold4 limit s0 \<noteq> Inl NotProvider) \<and>
         (\<forall>e1 e2 amount numApprovals threshold2 threshold4 limit.
            msg_sender e1 = msg_sender e \<and> msg_sender e2 = msg_sender e \<and>
            60 \<le> block_timestamp e2 \<longrightarrow>
            (\<exists>s1 s2 s3. openBatch e1 s0 = Inr s1 \<and>
               submitTransaction e2 amount numApprovals s1 = Inr s2 \<and>
               setPolicyParameters e2 threshold2 threshold4 limit s1 = Inr s3))"
  by (auto simp: s0_def constructor_def emit_def empty_batch_def submitTransaction_def
        setPolicyParameters_def openBatch_def modifier_defs update_batch_def checked_add_def
        word_less_nat_alt word_le_nat_alt)

theorem constructor_owner_is_provider_witness:
  "owner deployed = 1 \<and> isProvider deployed 1 \<and> events deployed = [ProviderAdded 1] \<and>
   (\<exists>s1 s2 s3. openBatch (tx_env 1 1000) deployed = Inr s1 \<and>
      submitTransaction (tx_env 1 1000) (Ciphertext 0) (Ciphertext 1) s1 = Inr s2 \<and>
      setPolicyParameters (tx_env 1 1000) (FHE_asEuint32 3) (FHE_asEuint32 5)
        (FHE_asEuint32 20000) s1 = Inr s3)"
proof -
  have e: "msg_sender (tx_env 1 1000) = 1 \<and> (60 :: uint256) \<le> block_timestamp (tx_env 1 1000)"
    by (simp add: tx_env_def)
  from constructor_owner_is_provider [of 9 "tx_env 1 1000"] e
  show ?thesis unfolding deployed_def by auto
qed

section \<open>The decryption protocol after deployment\<close>

lemma exec_no_contexts:
  assumes ex: "exec e c s = Inr s'"
      and inv: "\<forall>i. isOpen (batches s i) \<longrightarrow> i = currentBatchId s"
      and emp: "\<forall>r. decryptionContexts s r = empty_context"
  shows "\<forall>r. decryptionContexts s' r = empty_context"
proof (cases "(\<exists>bid. c = RequestApprovalStatus bid) \<or>
              (\<exists>r cleartexts pf. c = MyCallback r cleartexts pf)")
  case True
  then show ?thesis
  proof
    assume "\<exists>bid. c = RequestApprovalStatus bid"
    then obtain bid where "c = RequestApprovalStatus bid" by blast
    with ex requestApprovalStatus_dead [OF inv, of e bid] show ?thesis
      by (auto simp: exec_def)
  next
    assume "\<exists>r cleartexts pf. c = MyCallback r cleartexts pf"
    then obtain r cleartexts pf where "c = MyCallback r cleartexts pf" by blast
    with ex myCallback_unknown_request [of s r e cleartexts pf] emp show ?thesis
      by (auto simp: exec_def)
  qed
next
  case False
  with exec_contexts_frame [OF ex] emp show ?thesis by simp
qed

lemma run_no_contexts:
  "\<forall>i. isOpen (batches s i) \<longrightarrow> i = currentBatchId s \<Longrightarrow>
   \<forall>r. decryptionContexts s r = empty_context \<Longrightarrow>
   \<forall>r. decryptionContexts (run s ts) r = empty_context"
proof (induction ts arbitrary: s)
  case Nil
  then show ?case by (simp add: run_Nil)
next
  case (Cons t ts)
  have 1: "\<forall>i. isOpen (batches (transact s t) i) \<longrightarrow> i = currentBatchId (transact s t)"
    using transact_cases [of s t] Cons.prems(1) exec_open_inv [of "fst t" "snd t" s "transact s t"]
    by auto
  have 2: "\<forall>r. decryptionContexts (transact s t) r = empty_context"
    using transact_cases [of s t] Cons.prems exec_no_contexts [of "fst t" "snd t" s "transact s t"]
    by auto
  from Cons.IH [OF 1 2] show ?case by (simp add: run_Cons)
qed

text \<open>
  In every state that the constructor and any sequence of transactions lead to,
  \<open>requestApprovalStatus\<close> reverts for every batch id, caller and time; hence no decryption
  context is ever stored, and every call of \<open>myCallback\<close> reverts with \<open>StateMismatch\<close>.
\<close>

theorem decryption_protocol_unreachable:
  fixes self e0 ts
  defines "s \<equiv> run (constructor self e0) ts"
  shows "(\<exists>err. requestApprovalStatus e bid s = Inl err) \<and>
         decryptionContexts s r = empty_context \<and>
         myCallback e r cleartexts proof_bytes s = Inl StateMismatch"
proof -
  have inv: "\<forall>i. isOpen (batches s i) \<longrightarrow> i = currentBatchId s"
    unfolding s_def by (rule run_open_inv) (simp add: constructor_open_inv)
  have emp: "\<forall>r. decryptionContexts s r = empty_context"
    unfolding s_def
    by (rule run_no_contexts) (simp_all add: constructor_open_inv, simp add: constructor_def emit_def)
  from requestApprovalStatus_dead [OF inv] emp myCallback_unknown_request
  show ?thesis by simp
qed

theorem decryption_protocol_unreachable_witness:
  "(\<exists>err. requestApprovalStatus (tx_env 2 2000) 1 submitted = Inl err) \<and>
   decryptionContexts submitted 7 = empty_context \<and>
   myCallback (tx_env 3 3000) 7 cleartext_true [] submitted = Inl StateMismatch"
proof -
  have r: "submitted = run (constructor 9 (tx_env 1 1000))
             [(tx_env 1 1000, OpenBatch),
              (tx_env 1 1000, SubmitTransaction (Ciphertext 0) (Ciphertext 1))]"
    by (simp add: submitted_def opened_def deployed_def run_def)
  show ?thesis
    unfolding r
    using decryption_protocol_unreachable
      [where self = 9 and ?e0.0 = "tx_env 1 1000" and bid = 1 and r = 7 and
         ts = "[(tx_env 1 1000, OpenBatch),
                (tx_env 1 1000, SubmitTransaction (Ciphertext 0) (Ciphertext 1))]"]
    by blast
qed

end
